theory Spec2Isabelle
  imports Main
begin

section \<open>Values, requests and documents\<close>

text \<open>
  The fields of a request body are JSON values. The handlers test them with JavaScript
  truthiness and otherwise hand them to their collaborators unchanged, so the scalars
  are modelled as they are: an absent field reads as \<open>undefined\<close>, and a number is
  truthy unless it is zero (the numbers are the integers; \<open>NaN\<close> is no JSON value).
  Nested objects and arrays, whose treatment is decided by the schema of the user model,
  are left out.
\<close>

datatype jsval = JUndefined | JNull | JBool bool | JNum int | JStr string

fun truthy :: "jsval \<Rightarrow> bool" where
  "truthy JUndefined = False"
| "truthy JNull = False"
| "truthy (JBool b) = b"
| "truthy (JNum n) = (n \<noteq> 0)"
| "truthy (JStr s) = (s \<noteq> [])"

text \<open>\<open>req.body\<close>, the object the body parser hands a handler, as the handlers destructure it.\<close>

record body =
  username :: jsval
  password :: jsval
  firstname :: jsval
  lastname :: jsval

text \<open>A document of the user collection: the four fields and the \<open>_id\<close> of the document.\<close>

record user = body +
  user_id :: nat

text \<open>A thrown \<open>Error\<close> with its \<open>message\<close>.\<close>

datatype exn = Exn (message: string)

text \<open>The payload handed to \<open>jwt.sign\<close>: \<open>{ username: user.username, id: user._id }\<close>.\<close>

record claims =
  claim_username :: jsval
  claim_id :: nat

text \<open>
  What \<open>res.status(n).json(v)\<close> sends: an object with a \<open>message\<close>, a bare JSON
  string, or the object \<open>{ user, token }\<close>.
\<close>

datatype resbody = Message string | Text string | UserToken user string

datatype response = Response (status: nat) (json: resbody)

section \<open>Collaborators\<close>

text \<open>
  The calls a handler makes to its collaborators, in the order it makes them, each with
  its arguments and with what it returned (\<open>Inl\<close>: it threw). \<open>ErrorLog\<close> is the
  \<open>console.error\<close> of a catch block.
\<close>

datatype event =
    GenSalt nat "exn + string"
  | Hash jsval string "exn + string"
  | Compare jsval jsval "exn + bool"
  | FindOne jsval "exn + user option"
  | Save user "exn + user"
  | Sign claims jsval string "exn + string"
  | ErrorLog string string

fun raised :: "event \<Rightarrow> bool" where
  "raised (GenSalt n r) = isl r"
| "raised (Hash p s r) = isl r"
| "raised (Compare p h r) = isl r"
| "raised (FindOne n r) = isl r"
| "raised (Save d r) = isl r"
| "raised (Sign c k x r) = isl r"
| "raised (ErrorLog l m) = False"

text \<open>A call of \<open>jwt.sign\<close>.\<close>

fun signing :: "event \<Rightarrow> bool" where
  "signing (Sign c k x r) = True"
| "signing e = False"

text \<open>A save that completed.\<close>

fun saved :: "event \<Rightarrow> bool" where
  "saved (Save d r) = (\<not> isl r)"
| "saved e = False"

text \<open>
  The libraries the controller imports (\<open>bcrypt\<close>, \<open>jsonwebtoken\<close>) and the process
  environment are parameters of the model: each call returns a value or throws. The
  last three fields belong to the database driver: the \<open>_id\<close> it gives a new document,
  and whether a lookup or a save fails on it.
\<close>

record env =
  genSalt :: "nat \<Rightarrow> exn + string"
  hash :: "jsval \<Rightarrow> string \<Rightarrow> exn + string"
  compare :: "jsval \<Rightarrow> jsval \<Rightarrow> exn + bool"
  sign :: "claims \<Rightarrow> jsval \<Rightarrow> string \<Rightarrow> exn + string"
  JWTKEY :: jsval
  new_id :: nat
  findOne_fault :: "user list \<Rightarrow> jsval \<Rightarrow> exn option"
  save_fault :: "user list \<Rightarrow> user \<Rightarrow> exn option"

text \<open>
  Modelled from the spec: \<open>models/userModel.js\<close> and the database behind it are not
  among the sources. The user collection is "a document collection keyed logically by
  username" holding records of the four fields; it is a list of documents in insertion
  order, and a username matches a document when it equals the document's username.
\<close>

definition lookup :: "user list \<Rightarrow> jsval \<Rightarrow> user option" where
  "lookup db name = find (\<lambda>u. username u = name) db"

text \<open>
  Modelled from the spec: \<open>new UserModel(req.body)\<close> builds the document of the four
  fields of the schema and gives it its \<open>_id\<close>.
\<close>

definition UserModel :: "env \<Rightarrow> body \<Rightarrow> user" where
  "UserModel env b =
     \<lparr>username = username b, password = password b, firstname = firstname b,
      lastname = lastname b, user_id = new_id env\<rparr>"

text \<open>
  Modelled from the spec: \<open>UserModel.findOne({ username })\<close> returns a record with that
  username or \<open>null\<close>, unless the driver fails.
\<close>

definition findOne :: "env \<Rightarrow> user list \<Rightarrow> jsval \<Rightarrow> exn + user option" where
  "findOne env db name =
     (case findOne_fault env db name of
        Some e \<Rightarrow> Inl e
      | None \<Rightarrow> Inr (lookup db name))"

text \<open>
  Modelled from the spec: \<open>newUser.save()\<close> "persists the new record" and returns it,
  unless the driver fails; a save that fails persists nothing.
\<close>

definition save :: "env \<Rightarrow> user list \<Rightarrow> user \<Rightarrow> exn + user \<times> user list" where
  "save env db doc =
     (case save_fault env db doc of
        Some e \<Rightarrow> Inl e
      | None \<Rightarrow> Inr (doc, db @ [doc]))"

section \<open>The controller\<close>

text \<open>
  \<open>registerUser\<close> and \<open>loginUser\<close> of the controller (the sources hold it twice, with
  the same code). A handler takes the collection and the request body and returns the
  response it sends, the collection afterwards and the calls it made. The \<open>try\<close>
  block of each handler is a function of its own whose result is \<open>Inl\<close> when a call
  threw. What a handler puts out itself (\<open>res.status(n).json(v)\<close>, \<open>console.error\<close>)
  does not throw.
\<close>

definition register_try ::
  "env \<Rightarrow> user list \<Rightarrow> body \<Rightarrow> (exn + response) \<times> user list \<times> event list" where
  "register_try env db b =
     (let r1 = genSalt env 10; t1 = [GenSalt 10 r1] in
      case r1 of
        Inl e \<Rightarrow> (Inl e, db, t1)
      | Inr salt \<Rightarrow>
         (let r2 = hash env (password b) salt;
              t2 = t1 @ [Hash (password b) salt r2] in
          case r2 of
            Inl e \<Rightarrow> (Inl e, db, t2)
          | Inr hashedPass \<Rightarrow>
             (let newUser = UserModel env (b\<lparr>password := JStr hashedPass\<rparr>);
                  r3 = findOne env db (username b);
                  t3 = t2 @ [FindOne (username b) r3] in
              case r3 of
                Inl e \<Rightarrow> (Inl e, db, t3)
              | Inr (Some oldUser) \<Rightarrow>
                  (Inr (Response 400 (Message ''User already exists'')), db, t3)
              | Inr None \<Rightarrow>
                 (let r4 = save env db newUser;
                      t4 = t3 @ [Save newUser (map_sum id fst r4)] in
                  case r4 of
                    Inl e \<Rightarrow> (Inl e, db, t4)
                  | Inr (user, db') \<Rightarrow>
                     (let c = \<lparr>claim_username = username user, claim_id = user_id user\<rparr>;
                          r5 = sign env c (JWTKEY env) ''1h'';
                          t5 = t4 @ [Sign c (JWTKEY env) ''1h'' r5] in
                      case r5 of
                        Inl e \<Rightarrow> (Inl e, db', t5)
                      | Inr token \<Rightarrow>
                          (Inr (Response 200 (UserToken user token)), db', t5))))))"

definition registerUser ::
  "env \<Rightarrow> user list \<Rightarrow> body \<Rightarrow> response \<times> user list \<times> event list" where
  "registerUser env db b =
     (if \<not> truthy (username b) \<or> \<not> truthy (password b) \<or>
         \<not> truthy (firstname b) \<or> \<not> truthy (lastname b)
      then (Response 400 (Message ''All fields are required.''), db, [])
      else
        case register_try env db b of
          (Inr res, db', t) \<Rightarrow> (res, db', t)
        | (Inl error, db', t) \<Rightarrow>
            (Response 500 (Message ''Server Error during registration''), db',
             t @ [ErrorLog ''Error during registration:'' (message error)]))"

definition login_try ::
  "env \<Rightarrow> user list \<Rightarrow> body \<Rightarrow> (exn + response) \<times> user list \<times> event list" where
  "login_try env db b =
     (let r1 = findOne env db (username b); t1 = [FindOne (username b) r1] in
      case r1 of
        Inl e \<Rightarrow> (Inl e, db, t1)
      | Inr None \<Rightarrow> (Inr (Response 404 (Text ''User not found'')), db, t1)
      | Inr (Some user) \<Rightarrow>
         (let r2 = compare env (password b) (password user);
              t2 = t1 @ [Compare (password b) (password user) r2] in
          case r2 of
            Inl e \<Rightarrow> (Inl e, db, t2)
          | Inr validity \<Rightarrow>
              if \<not> validity
              then (Inr (Response 400 (Text ''Incorrect password'')), db, t2)
              else
               (let c = \<lparr>claim_username = username user, claim_id = user_id user\<rparr>;
                    r3 = sign env c (JWTKEY env) ''1h'';
                    t3 = t2 @ [Sign c (JWTKEY env) ''1h'' r3] in
                case r3 of
                  Inl e \<Rightarrow> (Inl e, db, t3)
                | Inr token \<Rightarrow> (Inr (Response 200 (UserToken user token)), db, t3))))"

definition loginUser ::
  "env \<Rightarrow> user list \<Rightarrow> body \<Rightarrow> response \<times> user list \<times> event list" where
  "loginUser env db b =
     (if \<not> truthy (username b) \<or> \<not> truthy (password b)
      then (Response 400 (Message ''Username and password are required.''), db, [])
      else
        case login_try env db b of
          (Inr res, db', t) \<Rightarrow> (res, db', t)
        | (Inl err, db', t) \<Rightarrow>
            (Response 500 (Message ''Server Error during login''), db',
             t @ [ErrorLog ''Error during login:'' (message err)]))"

section \<open>The client actions\<close>

text \<open>
  The thunks of \<open>AuthActions.js\<close>. What a thunk does is the list of its effects in
  order: the actions it dispatches, the navigation and the \<open>console.error\<close> of its
  catch block. \<open>Navigate path replace\<close> is \<open>navigate(path, { replace })\<close>. The
  callbacks \<open>dispatch\<close> and \<open>navigate\<close> return normally; the request is the one call
  that may reject.
\<close>

datatype action = AUTH_START | AUTH_SUCCESS resbody | AUTH_FAIL | LOG_OUT

datatype logged = Data resbody | Msg string

datatype effect = Dispatch action | Navigate string bool | ConsoleError string logged

text \<open>
  A rejected request: the error of the HTTP client, with the response of the server when
  there was one, and its \<open>message\<close>.
\<close>

datatype api_error = ApiError (err_response: "response option") (err_message: string)

fun truthy_data :: "resbody \<Rightarrow> bool" where
  "truthy_data (Message m) = True"
| "truthy_data (Text s) = (s \<noteq> [])"
| "truthy_data (UserToken u t) = True"

text \<open>\<open>error?.response?.data || error.message\<close>\<close>

definition error_detail :: "api_error \<Rightarrow> logged" where
  "error_detail error =
     (case err_response error of
        None \<Rightarrow> Msg (err_message error)
      | Some r \<Rightarrow> if truthy_data (json r) then Data (json r) else Msg (err_message error))"

text \<open>
  \<open>api/AuthRequests\<close> is a parameter: each request resolves with a response, whose
  \<open>data\<close> is the body the server sent, or rejects.
\<close>

record 'f AuthApi =
  api_logIn :: "'f \<Rightarrow> api_error + response"
  api_signUp :: "'f \<Rightarrow> api_error + response"

definition logIn :: "'f AuthApi \<Rightarrow> 'f \<Rightarrow> effect list" where
  "logIn api formData =
     Dispatch AUTH_START #
     (case api_logIn api formData of
        Inr r \<Rightarrow> [Dispatch (AUTH_SUCCESS (json r)), Navigate ''/home'' True]
      | Inl error \<Rightarrow> [ConsoleError ''Login Error:'' (error_detail error), Dispatch AUTH_FAIL])"

definition signUp :: "'f AuthApi \<Rightarrow> 'f \<Rightarrow> effect list" where
  "signUp api formData =
     Dispatch AUTH_START #
     (case api_signUp api formData of
        Inr r \<Rightarrow> [Dispatch (AUTH_SUCCESS (json r)), Navigate ''/home'' True]
      | Inl error \<Rightarrow> [ConsoleError ''Signup Error:'' (error_detail error), Dispatch AUTH_FAIL])"

definition logout :: "effect list" where
  "logout = [Dispatch LOG_OUT]"

section \<open>Sample collaborators and requests\<close>

text \<open>
  Collaborators that never fail on well-formed input, for running the handlers on
  concrete requests: hashing prefixes the salt and reads the first 72 characters of the
  password, signing needs a key.
\<close>

definition stub_env :: env where
  "stub_env =
     \<lparr>genSalt = (\<lambda>rounds. Inr ''salt''),
      hash = (\<lambda>data salt. case data of
                JStr s \<Rightarrow> Inr (salt @ ''$'' @ take 72 s)
              | _ \<Rightarrow> Inl (Exn ''data must be a string'')),
      compare = (\<lambda>data encrypted. case data of
                JStr s \<Rightarrow> Inr (encrypted = JStr (''salt$'' @ take 72 s))
              | _ \<Rightarrow> Inl (Exn ''data must be a string'')),
      sign = (\<lambda>c key expiresIn. case key of
                JStr s \<Rightarrow> Inr ''header.payload.signature''
              | _ \<Rightarrow> Inl (Exn ''secretOrPrivateKey must have a value'')),
      JWTKEY = JStr ''secret'',
      new_id = 1,
      findOne_fault = (\<lambda>db name. None),
      save_fault = (\<lambda>db doc. None)\<rparr>"

definition alice :: body where
  "alice = \<lparr>username = JStr ''alice'', password = JStr ''pw123'',
            firstname = JStr ''A'', lastname = JStr ''L''\<rparr>"

definition alice_doc :: user where
  "alice_doc = \<lparr>username = JStr ''alice'', password = JStr ''salt$pw123'',
                firstname = JStr ''A'', lastname = JStr ''L'', user_id = 1\<rparr>"

text \<open>
  A request that runs a handler of the controller: the HTTP client resolves on status
  200 and rejects with the response otherwise.
\<close>

definition request ::
  "(body \<Rightarrow> response \<times> user list \<times> event list) \<Rightarrow> body \<Rightarrow> api_error + response" where
  "request handler formData =
     (let res = fst (handler formData) in
      if status res = 200 then Inr res else Inl (ApiError (Some res) ''Request failed''))"

definition stub_api :: "body AuthApi" where
  "stub_api =
     \<lparr>api_logIn = request (loginUser stub_env [alice_doc]),
      api_signUp = request (registerUser stub_env [alice_doc])\<rparr>"

section \<open>The outcomes of a handler\<close>

lemma registerUser_invalid:
  assumes "\<not> truthy (username b) \<or> \<not> truthy (password b) \<or>
           \<not> truthy (firstname b) \<or> \<not> truthy (lastname b)"
  shows "registerUser env db b = (Response 400 (Message ''All fields are required.''), db, [])"
  using assms by (simp add: registerUser_def)

lemma loginUser_invalid:
  assumes "\<not> truthy (username b) \<or> \<not> truthy (password b)"
  shows "loginUser env db b =
           (Response 400 (Message ''Username and password are required.''), db, [])"
  using assms by (simp add: loginUser_def)

lemma lookup_append:
  "lookup (db @ [u]) name =
     (case lookup db name of
        Some v \<Rightarrow> Some v
      | None \<Rightarrow> if username u = name then Some u else None)"
  by (induction db) (auto simp: lookup_def)

text \<open>
  Every run of \<open>registerUser\<close> is one of eight: the request is rejected, one of the five
  calls throws, the username is taken, or the user is created. Each case gives the
  response, the collection afterwards and the calls made.
\<close>

lemma registerUser_cases [consumes 1, case_names Invalid SaltRaised HashRaised FindRaised Conflict SaveRaised SignRaised Created]:
  assumes "registerUser env db b = (res, db', tr)"
  obtains
    (Invalid)
      "\<not> truthy (username b) \<or> \<not> truthy (password b) \<or> \<not> truthy (firstname b) \<or> \<not> truthy (lastname b)"
      "res = Response 400 (Message ''All fields are required.'')" "db' = db" "tr = []"
  | (SaltRaised) e where
      "truthy (username b)" "truthy (password b)" "truthy (firstname b)" "truthy (lastname b)"
      "genSalt env 10 = Inl e"
      "res = Response 500 (Message ''Server Error during registration'')" "db' = db"
      "tr = [GenSalt 10 (Inl e), ErrorLog ''Error during registration:'' (message e)]"
  | (HashRaised) salt e where
      "truthy (username b)" "truthy (password b)" "truthy (firstname b)" "truthy (lastname b)"
      "genSalt env 10 = Inr salt" "hash env (password b) salt = Inl e"
      "res = Response 500 (Message ''Server Error during registration'')" "db' = db"
      "tr = [GenSalt 10 (Inr salt), Hash (password b) salt (Inl e),
             ErrorLog ''Error during registration:'' (message e)]"
  | (FindRaised) salt hashedPass e where
      "truthy (username b)" "truthy (password b)" "truthy (firstname b)" "truthy (lastname b)"
      "genSalt env 10 = Inr salt" "hash env (password b) salt = Inr hashedPass"
      "findOne_fault env db (username b) = Some e"
      "res = Response 500 (Message ''Server Error during registration'')" "db' = db"
      "tr = [GenSalt 10 (Inr salt), Hash (password b) salt (Inr hashedPass),
             FindOne (username b) (Inl e), ErrorLog ''Error during registration:'' (message e)]"
  | (Conflict) salt hashedPass oldUser where
      "truthy (username b)" "truthy (password b)" "truthy (firstname b)" "truthy (lastname b)"
      "genSalt env 10 = Inr salt" "hash env (password b) salt = Inr hashedPass"
      "findOne_fault env db (username b) = None" "lookup db (username b) = Some oldUser"
      "res = Response 400 (Message ''User already exists'')" "db' = db"
      "tr = [GenSalt 10 (Inr salt), Hash (password b) salt (Inr hashedPass),
             FindOne (username b) (Inr (Some oldUser))]"
  | (SaveRaised) salt hashedPass newUser e where
      "truthy (username b)" "truthy (password b)" "truthy (firstname b)" "truthy (lastname b)"
      "genSalt env 10 = Inr salt" "hash env (password b) salt = Inr hashedPass"
      "findOne_fault env db (username b) = None" "lookup db (username b) = None"
      "newUser = UserModel env (b\<lparr>password := JStr hashedPass\<rparr>)"
      "save_fault env db newUser = Some e"
      "res = Response 500 (Message ''Server Error during registration'')" "db' = db"
      "tr = [GenSalt 10 (Inr salt), Hash (password b) salt (Inr hashedPass),
             FindOne (username b) (Inr None), Save newUser (Inl e),
             ErrorLog ''Error during registration:'' (message e)]"
  | (SignRaised) salt hashedPass newUser c e where
      "truthy (username b)" "truthy (password b)" "truthy (firstname b)" "truthy (lastname b)"
      "genSalt env 10 = Inr salt" "hash env (password b) salt = Inr hashedPass"
      "findOne_fault env db (username b) = None" "lookup db (username b) = None"
      "newUser = UserModel env (b\<lparr>password := JStr hashedPass\<rparr>)"
      "save_fault env db newUser = None"
      "c = \<lparr>claim_username = username newUser, claim_id = user_id newUser\<rparr>"
      "sign env c (JWTKEY env) ''1h'' = Inl e"
      "res = Response 500 (Message ''Server Error during registration'')" "db' = db @ [newUser]"
      "tr = [GenSalt 10 (Inr salt), Hash (password b) salt (Inr hashedPass),
             FindOne (username b) (Inr None), Save newUser (Inr newUser),
             Sign c (JWTKEY env) ''1h'' (Inl e),
             ErrorLog ''Error during registration:'' (message e)]"
  | (Created) salt hashedPass newUser c token where
      "truthy (username b)" "truthy (password b)" "truthy (firstname b)" "truthy (lastname b)"
      "genSalt env 10 = Inr salt" "hash env (password b) salt = Inr hashedPass"
      "findOne_fault env db (username b) = None" "lookup db (username b) = None"
      "newUser = UserModel env (b\<lparr>password := JStr hashedPass\<rparr>)"
      "save_fault env db newUser = None"
      "c = \<lparr>claim_username = username newUser, claim_id = user_id newUser\<rparr>"
      "sign env c (JWTKEY env) ''1h'' = Inr token"
      "res = Response 200 (UserToken newUser token)" "db' = db @ [newUser]"
      "tr = [GenSalt 10 (Inr salt), Hash (password b) salt (Inr hashedPass),
             FindOne (username b) (Inr None), Save newUser (Inr newUser),
             Sign c (JWTKEY env) ''1h'' (Inr token)]"
proof (cases "truthy (username b) \<and> truthy (password b) \<and> truthy (firstname b) \<and> truthy (lastname b)")
  case False
  with assms have "res = Response 400 (Message ''All fields are required.'') \<and> db' = db \<and> tr = []"
    by (simp add: registerUser_def)
  with False show thesis
    by (intro Invalid) simp_all
next
  case True
  show thesis
  proof (cases "genSalt env 10")
    case (Inl e)
    with assms True have "res = Response 500 (Message ''Server Error during registration'') \<and> db' = db \<and>
        tr = [GenSalt 10 (Inl e), ErrorLog ''Error during registration:'' (message e)]"
      by (simp add: registerUser_def register_try_def Let_def)
    with True Inl show thesis
      by (intro SaltRaised [of e]) simp_all
  next
    case salt: (Inr salt)
    show thesis
    proof (cases "hash env (password b) salt")
      case (Inl e)
      with assms True salt have "res = Response 500 (Message ''Server Error during registration'') \<and> db' = db \<and>
          tr = [GenSalt 10 (Inr salt), Hash (password b) salt (Inl e),
                ErrorLog ''Error during registration:'' (message e)]"
        by (simp add: registerUser_def register_try_def Let_def)
      with True salt Inl show thesis
        by (intro HashRaised [of salt e]) simp_all
    next
      case hashed: (Inr hashedPass)
      show thesis
      proof (cases "findOne_fault env db (username b)")
        case (Some e)
        with assms True salt hashed
        have "res = Response 500 (Message ''Server Error during registration'') \<and> db' = db \<and>
            tr = [GenSalt 10 (Inr salt), Hash (password b) salt (Inr hashedPass),
                  FindOne (username b) (Inl e), ErrorLog ''Error during registration:'' (message e)]"
          by (simp add: registerUser_def register_try_def findOne_def Let_def)
        with True salt hashed Some show thesis
          by (intro FindRaised [of salt hashedPass e]) simp_all
      next
        case nofault: None
        show thesis
        proof (cases "lookup db (username b)")
          case (Some oldUser)
          with assms True salt hashed nofault
          have "res = Response 400 (Message ''User already exists'') \<and> db' = db \<and>
              tr = [GenSalt 10 (Inr salt), Hash (password b) salt (Inr hashedPass),
                    FindOne (username b) (Inr (Some oldUser))]"
            by (simp add: registerUser_def register_try_def findOne_def Let_def)
          with True salt hashed nofault Some show thesis
            by (intro Conflict [of salt hashedPass oldUser]) simp_all
        next
          case fresh: None
          define newUser where "newUser = UserModel env (b\<lparr>password := JStr hashedPass\<rparr>)"
          show thesis
          proof (cases "save_fault env db newUser")
            case (Some e)
            with assms True salt hashed nofault fresh
            have "res = Response 500 (Message ''Server Error during registration'') \<and> db' = db \<and>
                tr = [GenSalt 10 (Inr salt), Hash (password b) salt (Inr hashedPass),
                      FindOne (username b) (Inr None), Save newUser (Inl e),
                      ErrorLog ''Error during registration:'' (message e)]"
              by (simp add: registerUser_def register_try_def findOne_def save_def Let_def
                    newUser_def [symmetric])
            with True salt hashed nofault fresh Some newUser_def show thesis
              by (intro SaveRaised [of salt hashedPass newUser e]) simp_all
          next
            case stored: None
            define c where "c = \<lparr>claim_username = username newUser, claim_id = user_id newUser\<rparr>"
            show thesis
            proof (cases "sign env c (JWTKEY env) ''1h''")
              case (Inl e)
              with assms True salt hashed nofault fresh stored
              have "res = Response 500 (Message ''Server Error during registration'') \<and>
                  db' = db @ [newUser] \<and>
                  tr = [GenSalt 10 (Inr salt), Hash (password b) salt (Inr hashedPass),
                        FindOne (username b) (Inr None), Save newUser (Inr newUser),
                        Sign c (JWTKEY env) ''1h'' (Inl e),
                        ErrorLog ''Error during registration:'' (message e)]"
                by (simp add: registerUser_def register_try_def findOne_def save_def Let_def
                      newUser_def [symmetric] c_def [symmetric])
              with True salt hashed nofault fresh stored Inl newUser_def c_def show thesis
                by (intro SignRaised [of salt hashedPass newUser c e]) simp_all
            next
              case (Inr token)
              with assms True salt hashed nofault fresh stored
              have "res = Response 200 (UserToken newUser token) \<and> db' = db @ [newUser] \<and>
                  tr = [GenSalt 10 (Inr salt), Hash (password b) salt (Inr hashedPass),
                        FindOne (username b) (Inr None), Save newUser (Inr newUser),
                        Sign c (JWTKEY env) ''1h'' (Inr token)]"
                by (simp add: registerUser_def register_try_def findOne_def save_def Let_def
                      newUser_def [symmetric] c_def [symmetric])
              with True salt hashed nofault fresh stored Inr newUser_def c_def show thesis
                by (intro Created [of salt hashedPass newUser c token]) simp_all
            qed
          qed
        qed
      qed
    qed
  qed
qed

text \<open>Every run of \<open>loginUser\<close> is one of seven.\<close>

lemma loginUser_cases [consumes 1, case_names Invalid FindRaised NotFound CompareRaised Incorrect SignRaised LoggedIn]:
  assumes "loginUser env db b = (res, db', tr)"
  obtains
    (Invalid)
      "\<not> truthy (username b) \<or> \<not> truthy (password b)"
      "res = Response 400 (Message ''Username and password are required.'')" "db' = db" "tr = []"
  | (FindRaised) e where
      "truthy (username b)" "truthy (password b)"
      "findOne_fault env db (username b) = Some e"
      "res = Response 500 (Message ''Server Error during login'')" "db' = db"
      "tr = [FindOne (username b) (Inl e), ErrorLog ''Error during login:'' (message e)]"
  | (NotFound)
      "truthy (username b)" "truthy (password b)"
      "findOne_fault env db (username b) = None" "lookup db (username b) = None"
      "res = Response 404 (Text ''User not found'')" "db' = db"
      "tr = [FindOne (username b) (Inr None)]"
  | (CompareRaised) user e where
      "truthy (username b)" "truthy (password b)"
      "findOne_fault env db (username b) = None" "lookup db (username b) = Some user"
      "compare env (password b) (password user) = Inl e"
      "res = Response 500 (Message ''Server Error during login'')" "db' = db"
      "tr = [FindOne (username b) (Inr (Some user)),
             Compare (password b) (password user) (Inl e),
             ErrorLog ''Error during login:'' (message e)]"
  | (Incorrect) user where
      "truthy (username b)" "truthy (password b)"
      "findOne_fault env db (username b) = None" "lookup db (username b) = Some user"
      "compare env (password b) (password user) = Inr False"
      "res = Response 400 (Text ''Incorrect password'')" "db' = db"
      "tr = [FindOne (username b) (Inr (Some user)),
             Compare (password b) (password user) (Inr False)]"
  | (SignRaised) user c e where
      "truthy (username b)" "truthy (password b)"
      "findOne_fault env db (username b) = None" "lookup db (username b) = Some user"
      "compare env (password b) (password user) = Inr True"
      "c = \<lparr>claim_username = username user, claim_id = user_id user\<rparr>"
      "sign env c (JWTKEY env) ''1h'' = Inl e"
      "res = Response 500 (Message ''Server Error during login'')" "db' = db"
      "tr = [FindOne (username b) (Inr (Some user)),
             Compare (password b) (password user) (Inr True),
             Sign c (JWTKEY env) ''1h'' (Inl e),
             ErrorLog ''Error during login:'' (message e)]"
  | (LoggedIn) user c token where
      "truthy (username b)" "truthy (password b)"
      "findOne_fault env db (username b) = None" "lookup db (username b) = Some user"
      "compare env (password b) (password user) = Inr True"
      "c = \<lparr>claim_username = username user, claim_id = user_id user\<rparr>"
      "sign env c (JWTKEY env) ''1h'' = Inr token"
      "res = Response 200 (UserToken user token)" "db' = db"
      "tr = [FindOne (username b) (Inr (Some user)),
             Compare (password b) (password user) (Inr True),
             Sign c (JWTKEY env) ''1h'' (Inr token)]"
proof (cases "truthy (username b) \<and> truthy (password b)")
  case False
  with assms have "res = Response 400 (Message ''Username and password are required.'') \<and>
      db' = db \<and> tr = []"
    by (simp add: loginUser_def)
  with False show thesis
    by (intro Invalid) simp_all
next
  case True
  show thesis
  proof (cases "findOne_fault env db (username b)")
    case (Some e)
    with assms True have "res = Response 500 (Message ''Server Error during login'') \<and> db' = db \<and>
        tr = [FindOne (username b) (Inl e), ErrorLog ''Error during login:'' (message e)]"
      by (simp add: loginUser_def login_try_def findOne_def Let_def)
    with True Some show thesis
      by (intro FindRaised [of e]) simp_all
  next
    case nofault: None
    show thesis
    proof (cases "lookup db (username b)")
      case None
      with assms True nofault have "res = Response 404 (Text ''User not found'') \<and> db' = db \<and>
          tr = [FindOne (username b) (Inr None)]"
        by (simp add: loginUser_def login_try_def findOne_def Let_def)
      with True nofault None show thesis
        by (intro NotFound) simp_all
    next
      case found: (Some user)
      show thesis
      proof (cases "compare env (password b) (password user)")
        case (Inl e)
        with assms True nofault found
        have "res = Response 500 (Message ''Server Error during login'') \<and> db' = db \<and>
            tr = [FindOne (username b) (Inr (Some user)),
                  Compare (password b) (password user) (Inl e),
                  ErrorLog ''Error during login:'' (message e)]"
          by (simp add: loginUser_def login_try_def findOne_def Let_def)
        with True nofault found Inl show thesis
          by (intro CompareRaised [of user e]) simp_all
      next
        case cmp: (Inr validity)
        show thesis
        proof (cases validity)
          case False
          with assms True nofault found cmp
          have "res = Response 400 (Text ''Incorrect password'') \<and> db' = db \<and>
              tr = [FindOne (username b) (Inr (Some user)),
                    Compare (password b) (password user) (Inr False)]"
            by (simp add: loginUser_def login_try_def findOne_def Let_def)
          with True nofault found cmp False show thesis
            by (intro Incorrect [of user]) simp_all
        next
          case valid: True
          define c where "c = \<lparr>claim_username = username user, claim_id = user_id user\<rparr>"
          show thesis
          proof (cases "sign env c (JWTKEY env) ''1h''")
            case (Inl e)
            with assms True nofault found cmp valid
            have "res = Response 500 (Message ''Server Error during login'') \<and> db' = db \<and>
                tr = [FindOne (username b) (Inr (Some user)),
                      Compare (password b) (password user) (Inr True),
                      Sign c (JWTKEY env) ''1h'' (Inl e),
                      ErrorLog ''Error during login:'' (message e)]"
              by (simp add: loginUser_def login_try_def findOne_def Let_def c_def [symmetric])
            with True nofault found cmp valid Inl c_def show thesis
              by (intro SignRaised [of user c e]) simp_all
          next
            case (Inr token)
            with assms True nofault found cmp valid
            have "res = Response 200 (UserToken user token) \<and> db' = db \<and>
                tr = [FindOne (username b) (Inr (Some user)),
                      Compare (password b) (password user) (Inr True),
                      Sign c (JWTKEY env) ''1h'' (Inr token)]"
              by (simp add: loginUser_def login_try_def findOne_def Let_def c_def [symmetric])
            with True nofault found cmp valid Inr c_def show thesis
              by (intro LoggedIn [of user c token]) simp_all
          qed
        qed
      qed
    qed
  qed
qed

text \<open>A successful registration leaves a record of its username behind.\<close>

lemma registered_is_found:
  assumes "registerUser env db b = (Response 200 body, db', tr)"
  shows "lookup db' (username b) \<noteq> None"
  using assms
  by (cases rule: registerUser_cases) (simp_all add: lookup_append UserModel_def)

section \<open>Running the handlers on the samples\<close>

lemmas run_defs = registerUser_def register_try_def loginUser_def login_try_def
  findOne_def save_def UserModel_def lookup_def Let_def stub_env_def alice_def alice_doc_def

lemma run_triple: "f = (fst f, fst (snd f), snd (snd f))"
  by simp

section \<open>Registration and login\<close>



text \<open>
  C2. A login request with username and password present is answered, when no call
  throws: with 404 when the username matches no record; with 200 and a body holding
  the user and the token that \<open>jwt.sign\<close> issued for that user when it matches a
  record and the password verifies against the stored hash; with 400 when it matches
  and the password does not verify. The collection is left as it was.
\<close>

theorem login_outcomes:
  assumes run: "loginUser env db b = (res, db', tr)"
    and fields: "truthy (username b)" "truthy (password b)"
    and calls: "\<forall>ev\<in>set tr. \<not> raised ev"
  shows "(lookup db (username b) = None \<longrightarrow> res = Response 404 (Text ''User not found'')) \<and>
         (\<forall>u. lookup db (username b) = Some u \<and>
               compare env (password b) (password u) = Inr True \<longrightarrow>
               (\<exists>t. sign env \<lparr>claim_username = username u, claim_id = user_id u\<rparr>
                        (JWTKEY env) ''1h'' = Inr t \<and>
                    res = Response 200 (UserToken u t))) \<and>
         (\<forall>u. lookup db (username b) = Some u \<and>
               compare env (password b) (password u) = Inr False \<longrightarrow>
               res = Response 400 (Text ''Incorrect password'')) \<and>
         db' = db"
  using run
  by (cases rule: loginUser_cases) (use fields calls in simp_all)

theorem login_outcomes_witness:
  "fst (loginUser stub_env [alice_doc] (alice\<lparr>username := JStr ''bob''\<rparr>)) =
     Response 404 (Text ''User not found'') \<and>
   (\<exists>t. sign stub_env \<lparr>claim_username = username alice_doc, claim_id = user_id alice_doc\<rparr>
           (JWTKEY stub_env) ''1h'' = Inr t \<and>
        fst (loginUser stub_env [alice_doc] alice) = Response 200 (UserToken alice_doc t)) \<and>
   fst (loginUser stub_env [alice_doc] (alice\<lparr>password := JStr ''wrong''\<rparr>)) =
     Response 400 (Text ''Incorrect password'')"
proof -
  let ?bob = "alice\<lparr>username := JStr ''bob''\<rparr>"
  let ?wrong = "alice\<lparr>password := JStr ''wrong''\<rparr>"
  have fields: "truthy (username ?bob)" "truthy (password ?bob)"
    "truthy (username alice)" "truthy (password alice)"
    "truthy (username ?wrong)" "truthy (password ?wrong)"
    by (simp_all add: alice_def)
  have calls: "\<forall>ev\<in>set (snd (snd (loginUser stub_env [alice_doc] ?bob))). \<not> raised ev"
    "\<forall>ev\<in>set (snd (snd (loginUser stub_env [alice_doc] alice))). \<not> raised ev"
    "\<forall>ev\<in>set (snd (snd (loginUser stub_env [alice_doc] ?wrong))). \<not> raised ev"
    by (simp_all add: run_defs)
  have unknown: "lookup [alice_doc] (username ?bob) = None"
    by (simp add: run_defs)
  have right: "lookup [alice_doc] (username alice) = Some alice_doc \<and>
      compare stub_env (password alice) (password alice_doc) = Inr True"
    by (simp add: run_defs)
  have wrong: "lookup [alice_doc] (username ?wrong) = Some alice_doc \<and>
      compare stub_env (password ?wrong) (password alice_doc) = Inr False"
    by (simp add: run_defs)
  note bob = login_outcomes [OF run_triple fields(1,2) calls(1)]
    and ok = login_outcomes [OF run_triple fields(3,4) calls(2)]
    and bad = login_outcomes [OF run_triple fields(5,6) calls(3)]
  from bob [THEN conjunct1, rule_format, OF unknown]
    ok [THEN conjunct2, THEN conjunct1, rule_format, OF right]
    bad [THEN conjunct2, THEN conjunct2, THEN conjunct1, rule_format, OF wrong]
  show ?thesis
    by blast
qed

text \<open>
  C3. A registration request, with its four fields present, for a username that is
  already in the collection is answered with status 400 and the conflict message
  "User already exists", and the collection is left as it was; in particular when the
  collection is the one an earlier, successful registration of that username left
  behind. As in C1 this is the run in which no call throws: the handler hashes the
  password before it looks the username up.
\<close>

theorem register_duplicate_conflict:
  assumes run: "registerUser env db b = (res, db', tr)"
    and fields: "truthy (username b)" "truthy (password b)"
      "truthy (firstname b)" "truthy (lastname b)"
    and calls: "\<forall>ev\<in>set tr. \<not> raised ev"
  shows "(lookup db (username b) \<noteq> None \<longrightarrow>
            res = Response 400 (Message ''User already exists'') \<and> db' = db) \<and>
         (\<forall>env0 db0 b0 body0 tr0.
            registerUser env0 db0 b0 = (Response 200 body0, db, tr0) \<and>
            username b0 = username b \<longrightarrow>
            res = Response 400 (Message ''User already exists'') \<and> db' = db)"
proof -
  have dup: "res = Response 400 (Message ''User already exists'') \<and> db' = db"
    if "lookup db (username b) \<noteq> None"
    using run
    by (cases rule: registerUser_cases) (use fields calls that in simp_all)
  have "lookup db (username b) \<noteq> None"
    if "registerUser env0 db0 b0 = (Response 200 body0, db, tr0)" "username b0 = username b"
    for env0 db0 b0 body0 tr0
    using registered_is_found [OF that(1)] that(2) by simp
  with dup show ?thesis
    by blast
qed

theorem register_duplicate_conflict_witness:
  "fst (registerUser stub_env [alice_doc] alice) = Response 400 (Message ''User already exists'') \<and>
   fst (registerUser stub_env (fst (snd (registerUser stub_env [] alice))) alice) =
     Response 400 (Message ''User already exists'') \<and>
   fst (snd (registerUser stub_env (fst (snd (registerUser stub_env [] alice))) alice)) =
     fst (snd (registerUser stub_env [] alice))"
proof -
  have fields: "truthy (username alice)" "truthy (password alice)"
    "truthy (firstname alice)" "truthy (lastname alice)"
    by (simp_all add: alice_def)
  have first: "registerUser stub_env [] alice =
      (Response 200 (UserToken alice_doc ''header.payload.signature''), [alice_doc],
       snd (snd (registerUser stub_env [] alice)))"
    by (simp add: run_defs)
  have calls: "\<forall>ev\<in>set (snd (snd (registerUser stub_env [alice_doc] alice))). \<not> raised ev"
    by (simp add: run_defs)
  have found: "lookup [alice_doc] (username alice) \<noteq> None"
    by (simp add: run_defs)
  note dup = register_duplicate_conflict [OF run_triple fields calls]
  from dup [THEN conjunct1] found
  have "fst (registerUser stub_env [alice_doc] alice) = Response 400 (Message ''User already exists'')"
    by simp
  moreover from dup [THEN conjunct2] first
  have "fst (registerUser stub_env [alice_doc] alice) = Response 400 (Message ''User already exists'') \<and>
      fst (snd (registerUser stub_env [alice_doc] alice)) = [alice_doc]"
    by blast
  moreover have "fst (snd (registerUser stub_env [] alice)) = [alice_doc]"
    by (simp add: run_defs)
  ultimately show ?thesis
    by simp
qed

section \<open>Tokens and passwords\<close>

text \<open>
  C4. The token of a successful registration or login is the one \<open>jwt.sign\<close>
  returned for the payload made of the username and the \<open>_id\<close> of the user in the
  same response, under the configured key and with the lifetime \<open>1h\<close>; the handler
  signs once; and that user is the record the collection holds for the username.
  (The library is a parameter: what a token decodes to is what was signed.)
\<close>

theorem token_carries_user:
  assumes "registerUser env db b = (Response 200 (UserToken u t), db', tr) \<or>
           loginUser env db b = (Response 200 (UserToken u t), db', tr)"
  shows "sign env \<lparr>claim_username = username u, claim_id = user_id u\<rparr> (JWTKEY env) ''1h'' = Inr t \<and>
         filter signing tr =
           [Sign \<lparr>claim_username = username u, claim_id = user_id u\<rparr> (JWTKEY env) ''1h'' (Inr t)] \<and>
         lookup db' (username b) = Some u"
  using assms
proof
  assume "registerUser env db b = (Response 200 (UserToken u t), db', tr)"
  then show ?thesis
    by (cases rule: registerUser_cases) (simp_all add: lookup_append UserModel_def)
next
  assume "loginUser env db b = (Response 200 (UserToken u t), db', tr)"
  then show ?thesis
    by (cases rule: loginUser_cases) simp_all
qed

theorem token_carries_user_witness:
  "sign stub_env \<lparr>claim_username = username alice_doc, claim_id = user_id alice_doc\<rparr>
     (JWTKEY stub_env) ''1h'' = Inr ''header.payload.signature'' \<and>
   lookup [alice_doc] (username alice) = Some alice_doc \<and>
   fst (loginUser stub_env [alice_doc] alice) =
     Response 200 (UserToken alice_doc ''header.payload.signature'') \<and>
   fst (registerUser stub_env [] alice) =
     Response 200 (UserToken alice_doc ''header.payload.signature'')"
proof -
  have reg: "registerUser stub_env [] alice =
      (Response 200 (UserToken alice_doc ''header.payload.signature''), [alice_doc],
       snd (snd (registerUser stub_env [] alice)))"
    by (simp add: run_defs)
  have log: "loginUser stub_env [alice_doc] alice =
      (Response 200 (UserToken alice_doc ''header.payload.signature''), [alice_doc],
       snd (snd (loginUser stub_env [alice_doc] alice)))"
    by (simp add: run_defs)
  have "fst (registerUser stub_env [] alice) =
      Response 200 (UserToken alice_doc ''header.payload.signature'')"
    by (simp add: run_defs)
  moreover have "fst (loginUser stub_env [alice_doc] alice) =
      Response 200 (UserToken alice_doc ''header.payload.signature'')"
    by (simp add: run_defs)
  moreover note token_carries_user [OF disjI1, OF reg] token_carries_user [OF disjI2, OF log]
  ultimately show ?thesis
    by blast
qed

text \<open>
  C5. The record a successful registration persists holds, as its password, the value
  \<open>bcrypt.hash\<close> returned for the supplied password and the salt of
  \<open>bcrypt.genSalt(10)\<close>, and nothing else is saved; the plaintext reaches the collection
  only through the hash, so that two passwords with the same hash leave the same
  collection. A login that finds the user calls \<open>bcrypt.compare\<close> once,
  on the supplied password and the stored one, answers 200 exactly when the comparison
  succeeds, and two candidate passwords that compare alike against the stored hash get
  the same response.
\<close>

theorem stored_password_is_hash:
  shows "(registerUser env db b = (Response 200 (UserToken u t), db', tr) \<longrightarrow>
           (\<exists>salt hashedPass.
              genSalt env 10 = Inr salt \<and> hash env (password b) salt = Inr hashedPass \<and>
              u = \<lparr>username = username b, password = JStr hashedPass,
                   firstname = firstname b, lastname = lastname b, user_id = new_id env\<rparr> \<and>
              db' = db @ [u] \<and>
              (\<forall>d r. Save d r \<in> set tr \<longrightarrow> d = u))) \<and>
         (loginUser env db b = (res, db', tr) \<and> truthy (username b) \<and> truthy (password b) \<and>
          lookup db (username b) = Some u \<and> (\<forall>ev\<in>set tr. \<not> raised ev) \<longrightarrow>
            (\<exists>validity.
               compare env (password b) (password u) = Inr validity \<and>
               (\<forall>p h r. Compare p h r \<in> set tr \<longleftrightarrow>
                  p = password b \<and> h = password u \<and> r = Inr validity) \<and>
               (status res = 200 \<longleftrightarrow> validity))) \<and>
         (truthy (username b) \<and> truthy (password b) \<and> truthy p \<and>
          lookup db (username b) = Some u \<and>
          compare env p (password u) = compare env (password b) (password u) \<longrightarrow>
            fst (loginUser env db (b\<lparr>password := p\<rparr>)) = fst (loginUser env db b)) \<and>
         (truthy (password b) \<and> truthy p \<and>
          (\<forall>salt. genSalt env 10 = Inr salt \<longrightarrow>
             hash env p salt = hash env (password b) salt) \<longrightarrow>
            fst (snd (registerUser env db (b\<lparr>password := p\<rparr>))) =
              fst (snd (registerUser env db b)))"
proof (intro conjI impI)
  assume "registerUser env db b = (Response 200 (UserToken u t), db', tr)"
  then show "\<exists>salt hashedPass.
      genSalt env 10 = Inr salt \<and> hash env (password b) salt = Inr hashedPass \<and>
      u = \<lparr>username = username b, password = JStr hashedPass,
           firstname = firstname b, lastname = lastname b, user_id = new_id env\<rparr> \<and>
      db' = db @ [u] \<and>
      (\<forall>d r. Save d r \<in> set tr \<longrightarrow> d = u)"
    by (cases rule: registerUser_cases) (simp_all add: UserModel_def)
next
  assume a: "loginUser env db b = (res, db', tr) \<and> truthy (username b) \<and> truthy (password b) \<and>
    lookup db (username b) = Some u \<and> (\<forall>ev\<in>set tr. \<not> raised ev)"
  then have "loginUser env db b = (res, db', tr)"
    by simp
  then show "\<exists>validity.
      compare env (password b) (password u) = Inr validity \<and>
      (\<forall>p h r. Compare p h r \<in> set tr \<longleftrightarrow>
         p = password b \<and> h = password u \<and> r = Inr validity) \<and>
      (status res = 200 \<longleftrightarrow> validity)"
    by (cases rule: loginUser_cases) (use a in auto)
next
  assume a: "truthy (username b) \<and> truthy (password b) \<and> truthy p \<and>
    lookup db (username b) = Some u \<and>
    compare env p (password u) = compare env (password b) (password u)"
  then show "fst (loginUser env db (b\<lparr>password := p\<rparr>)) = fst (loginUser env db b)"
    by (simp add: loginUser_def login_try_def findOne_def Let_def
          split: option.splits sum.splits)
next
  assume a: "truthy (password b) \<and> truthy p \<and>
    (\<forall>salt. genSalt env 10 = Inr salt \<longrightarrow> hash env p salt = hash env (password b) salt)"
  show "fst (snd (registerUser env db (b\<lparr>password := p\<rparr>))) = fst (snd (registerUser env db b))"
  proof (cases "genSalt env 10")
    case (Inl e)
    with a show ?thesis
      by (simp add: registerUser_def register_try_def Let_def)
  next
    case (Inr salt)
    with a have "hash env p salt = hash env (password b) salt"
      by simp
    with a Inr show ?thesis
      by (simp add: registerUser_def register_try_def findOne_def save_def UserModel_def Let_def
            split: option.splits sum.splits)
  qed
qed

theorem stored_password_is_hash_witness:
  "(\<exists>salt hashedPass.
      genSalt stub_env 10 = Inr salt \<and> hash stub_env (password alice) salt = Inr hashedPass \<and>
      alice_doc =
        \<lparr>username = username alice, password = JStr hashedPass,
         firstname = firstname alice, lastname = lastname alice, user_id = new_id stub_env\<rparr> \<and>
      fst (snd (registerUser stub_env [] alice)) = [] @ [alice_doc]) \<and>
   status (fst (loginUser stub_env [alice_doc] alice)) = 200 \<and>
   status (fst (loginUser stub_env [alice_doc] (alice\<lparr>password := JStr ''wrong''\<rparr>))) \<noteq> 200 \<and>
   fst (loginUser stub_env [alice_doc] (alice\<lparr>password := JStr ''other''\<rparr>)) =
     fst (loginUser stub_env [alice_doc] (alice\<lparr>password := JStr ''wrong''\<rparr>)) \<and>
   fst (snd (registerUser stub_env []
               (alice\<lparr>password := JStr (replicate 72 CHR ''a'' @ ''c'')\<rparr>))) =
     fst (snd (registerUser stub_env []
                 (alice\<lparr>password := JStr (replicate 72 CHR ''a'' @ ''b'')\<rparr>)))"
proof -
  let ?wrong = "alice\<lparr>password := JStr ''wrong''\<rparr>"
  let ?long = "alice\<lparr>password := JStr (replicate 72 CHR ''a'' @ ''b'')\<rparr>"
  have reg: "registerUser stub_env [] alice =
      (Response 200 (UserToken alice_doc ''header.payload.signature''),
       fst (snd (registerUser stub_env [] alice)),
       snd (snd (registerUser stub_env [] alice)))"
    by (simp add: run_defs)
  from stored_password_is_hash [THEN conjunct1, rule_format, OF reg]
  have stored: "\<exists>salt hashedPass.
      genSalt stub_env 10 = Inr salt \<and> hash stub_env (password alice) salt = Inr hashedPass \<and>
      alice_doc =
        \<lparr>username = username alice, password = JStr hashedPass,
         firstname = firstname alice, lastname = lastname alice, user_id = new_id stub_env\<rparr> \<and>
      fst (snd (registerUser stub_env [] alice)) = [] @ [alice_doc]"
    by blast
  have right: "loginUser stub_env [alice_doc] alice =
        (fst (loginUser stub_env [alice_doc] alice),
         fst (snd (loginUser stub_env [alice_doc] alice)),
         snd (snd (loginUser stub_env [alice_doc] alice))) \<and>
      truthy (username alice) \<and> truthy (password alice) \<and>
      lookup [alice_doc] (username alice) = Some alice_doc \<and>
      (\<forall>ev\<in>set (snd (snd (loginUser stub_env [alice_doc] alice))). \<not> raised ev)"
    by (simp add: run_defs)
  have wrong: "loginUser stub_env [alice_doc] ?wrong =
        (fst (loginUser stub_env [alice_doc] ?wrong),
         fst (snd (loginUser stub_env [alice_doc] ?wrong)),
         snd (snd (loginUser stub_env [alice_doc] ?wrong))) \<and>
      truthy (username ?wrong) \<and> truthy (password ?wrong) \<and>
      lookup [alice_doc] (username ?wrong) = Some alice_doc \<and>
      (\<forall>ev\<in>set (snd (snd (loginUser stub_env [alice_doc] ?wrong))). \<not> raised ev)"
    by (simp add: run_defs)
  have verdicts: "compare stub_env (password alice) (password alice_doc) = Inr True"
    "compare stub_env (password ?wrong) (password alice_doc) = Inr False"
    by (simp_all add: run_defs)
  from stored_password_is_hash [THEN conjunct2, THEN conjunct1, rule_format, OF right] verdicts(1)
  have accepted: "status (fst (loginUser stub_env [alice_doc] alice)) = 200"
    by auto
  from stored_password_is_hash [THEN conjunct2, THEN conjunct1, rule_format, OF wrong] verdicts(2)
  have refused: "status (fst (loginUser stub_env [alice_doc] ?wrong)) \<noteq> 200"
    by auto
  have alike: "truthy (username ?wrong) \<and> truthy (password ?wrong) \<and> truthy (JStr ''other'') \<and>
      lookup [alice_doc] (username ?wrong) = Some alice_doc \<and>
      compare stub_env (JStr ''other'') (password alice_doc) =
        compare stub_env (password ?wrong) (password alice_doc)"
    by (simp add: run_defs)
  from stored_password_is_hash [THEN conjunct2, THEN conjunct2, THEN conjunct1, THEN mp, OF alike]
  have same: "fst (loginUser stub_env [alice_doc] (alice\<lparr>password := JStr ''other''\<rparr>)) =
      fst (loginUser stub_env [alice_doc] ?wrong)"
    by simp
  have collide: "truthy (password ?long) \<and> truthy (JStr (replicate 72 CHR ''a'' @ ''c'')) \<and>
      (\<forall>salt. genSalt stub_env 10 = Inr salt \<longrightarrow>
         hash stub_env (JStr (replicate 72 CHR ''a'' @ ''c'')) salt =
           hash stub_env (password ?long) salt)"
    by (simp add: stub_env_def)
  from stored_password_is_hash [THEN conjunct2, THEN conjunct2, THEN conjunct2, THEN mp,
      OF collide]
  have kept: "fst (snd (registerUser stub_env []
                 (alice\<lparr>password := JStr (replicate 72 CHR ''a'' @ ''c'')\<rparr>))) =
      fst (snd (registerUser stub_env [] ?long))"
    by simp
  from stored accepted refused same kept show ?thesis
    by blast
qed

section \<open>Validation and errors\<close>

text \<open>
  C6. A registration request that lacks one of the four fields, and a login request
  that lacks the username or the password, is answered with status 400 before any
  call: the list of calls is empty (no hashing, no lookup, no save) and the collection
  is returned unchanged.
\<close>

theorem missing_field_rejected_before_any_call:
  shows "(JUndefined \<in> {username b, password b, firstname b, lastname b} \<longrightarrow>
            registerUser env db b =
              (Response 400 (Message ''All fields are required.''), db, [])) \<and>
         (JUndefined \<in> {username b, password b} \<longrightarrow>
            loginUser env db b =
              (Response 400 (Message ''Username and password are required.''), db, []))"
proof (intro conjI impI)
  assume "JUndefined \<in> {username b, password b, firstname b, lastname b}"
  then have "\<not> truthy (username b) \<or> \<not> truthy (password b) \<or>
      \<not> truthy (firstname b) \<or> \<not> truthy (lastname b)"
    by auto
  then show "registerUser env db b = (Response 400 (Message ''All fields are required.''), db, [])"
    by (rule registerUser_invalid)
next
  assume "JUndefined \<in> {username b, password b}"
  then have "\<not> truthy (username b) \<or> \<not> truthy (password b)"
    by auto
  then show "loginUser env db b =
      (Response 400 (Message ''Username and password are required.''), db, [])"
    by (rule loginUser_invalid)
qed

theorem missing_field_rejected_before_any_call_witness:
  "registerUser stub_env [alice_doc] (alice\<lparr>lastname := JUndefined\<rparr>) =
     (Response 400 (Message ''All fields are required.''), [alice_doc], []) \<and>
   loginUser stub_env [alice_doc] (alice\<lparr>password := JUndefined\<rparr>) =
     (Response 400 (Message ''Username and password are required.''), [alice_doc], [])"
  using missing_field_rejected_before_any_call
    [of "alice\<lparr>lastname := JUndefined\<rparr>" stub_env "[alice_doc]"]
    missing_field_rejected_before_any_call
    [of "alice\<lparr>password := JUndefined\<rparr>" stub_env "[alice_doc]"]
  by simp

text \<open>
  C7. What a handler answers is decided by what its collaborators return for the
  request, call by call in the order of the source. When a call throws (in a
  registration: the salt, the hash, the lookup, the save or the signing; in a login:
  the lookup, the comparison or the signing) the answer is 500 with the generic message
  of the handler, and the catch block has logged the error last; a handler answers 500
  in no other run. The expected conditions are answered by their own checks: missing
  fields with 400; in a registration, a username that the lookup finds with 400 "User
  already exists"; in a login, a username that the lookup does not find with 404 and a
  comparison that returns false with 400 "Incorrect password". When nothing throws and
  no check fires the answer is 200.
\<close>

theorem thrown_is_500_expected_is_specific:
  shows "(registerUser env db b = (res, db', tr) \<longrightarrow>
            ((\<exists>ev\<in>set tr. raised ev) \<longleftrightarrow> status res = 500) \<and>
            (status res = 500 \<longrightarrow>
               res = Response 500 (Message ''Server Error during registration'') \<and>
               (\<exists>m. last tr = ErrorLog ''Error during registration:'' m)) \<and>
            (\<not> (truthy (username b) \<and> truthy (password b) \<and>
                truthy (firstname b) \<and> truthy (lastname b)) \<longrightarrow>
               res = Response 400 (Message ''All fields are required.'')) \<and>
            (truthy (username b) \<and> truthy (password b) \<and>
             truthy (firstname b) \<and> truthy (lastname b) \<longrightarrow>
               (\<forall>e. genSalt env 10 = Inl e \<longrightarrow>
                  res = Response 500 (Message ''Server Error during registration'')) \<and>
               (\<forall>salt. genSalt env 10 = Inr salt \<longrightarrow>
                  (\<forall>e. hash env (password b) salt = Inl e \<longrightarrow>
                     res = Response 500 (Message ''Server Error during registration'')) \<and>
                  (\<forall>hashedPass. hash env (password b) salt = Inr hashedPass \<longrightarrow>
                     (\<forall>e. findOne_fault env db (username b) = Some e \<longrightarrow>
                        res = Response 500 (Message ''Server Error during registration'')) \<and>
                     (findOne_fault env db (username b) = None \<longrightarrow>
                        (\<forall>oldUser. lookup db (username b) = Some oldUser \<longrightarrow>
                           res = Response 400 (Message ''User already exists'')) \<and>
                        (lookup db (username b) = None \<longrightarrow>
                           (\<forall>e. save_fault env db
                                  (UserModel env (b\<lparr>password := JStr hashedPass\<rparr>)) = Some e \<longrightarrow>
                              res = Response 500 (Message ''Server Error during registration'')) \<and>
                           (save_fault env db
                              (UserModel env (b\<lparr>password := JStr hashedPass\<rparr>)) = None \<longrightarrow>
                              (\<forall>e. sign env \<lparr>claim_username = username b, claim_id = new_id env\<rparr>
                                     (JWTKEY env) ''1h'' = Inl e \<longrightarrow>
                                 res = Response 500
                                   (Message ''Server Error during registration'')) \<and>
                              (\<forall>token. sign env
                                     \<lparr>claim_username = username b, claim_id = new_id env\<rparr>
                                     (JWTKEY env) ''1h'' = Inr token \<longrightarrow>
                                 res = Response 200
                                   (UserToken (UserModel env (b\<lparr>password := JStr hashedPass\<rparr>))
                                      token))))))))) \<and>
         (loginUser env db b = (res, db', tr) \<longrightarrow>
            ((\<exists>ev\<in>set tr. raised ev) \<longleftrightarrow> status res = 500) \<and>
            (status res = 500 \<longrightarrow>
               res = Response 500 (Message ''Server Error during login'') \<and>
               (\<exists>m. last tr = ErrorLog ''Error during login:'' m)) \<and>
            (\<not> (truthy (username b) \<and> truthy (password b)) \<longrightarrow>
               res = Response 400 (Message ''Username and password are required.'')) \<and>
            (truthy (username b) \<and> truthy (password b) \<longrightarrow>
               (\<forall>e. findOne_fault env db (username b) = Some e \<longrightarrow>
                  res = Response 500 (Message ''Server Error during login'')) \<and>
               (findOne_fault env db (username b) = None \<longrightarrow>
                  (lookup db (username b) = None \<longrightarrow>
                     res = Response 404 (Text ''User not found'')) \<and>
                  (\<forall>user. lookup db (username b) = Some user \<longrightarrow>
                     (\<forall>e. compare env (password b) (password user) = Inl e \<longrightarrow>
                        res = Response 500 (Message ''Server Error during login'')) \<and>
                     (compare env (password b) (password user) = Inr False \<longrightarrow>
                        res = Response 400 (Text ''Incorrect password'')) \<and>
                     (compare env (password b) (password user) = Inr True \<longrightarrow>
                        (\<forall>e. sign env \<lparr>claim_username = username user, claim_id = user_id user\<rparr>
                               (JWTKEY env) ''1h'' = Inl e \<longrightarrow>
                           res = Response 500 (Message ''Server Error during login'')) \<and>
                        (\<forall>token. sign env
                               \<lparr>claim_username = username user, claim_id = user_id user\<rparr>
                               (JWTKEY env) ''1h'' = Inr token \<longrightarrow>
                           res = Response 200 (UserToken user token)))))))"
    (is "(?R \<longrightarrow> ?P) \<and> (?L \<longrightarrow> ?Q)")
proof (rule conjI; rule impI)
  assume ?R
  then show ?P
  proof (cases rule: registerUser_cases)
    case Invalid
    then show ?thesis
      by auto
  qed (simp_all add: UserModel_def)
next
  assume ?L
  then show ?Q
  proof (cases rule: loginUser_cases)
    case Invalid
    then show ?thesis
      by auto
  qed simp_all
qed

theorem thrown_is_500_expected_is_specific_witness:
  "fst (registerUser (stub_env\<lparr>JWTKEY := JUndefined\<rparr>) [] alice) =
     Response 500 (Message ''Server Error during registration'') \<and>
   fst (registerUser (stub_env\<lparr>save_fault := \<lambda>db doc. Some (Exn ''write failed'')\<rparr>) [] alice) =
     Response 500 (Message ''Server Error during registration'') \<and>
   fst (registerUser stub_env [] (alice\<lparr>password := JNum 12345\<rparr>)) =
     Response 500 (Message ''Server Error during registration'') \<and>
   fst (loginUser (stub_env\<lparr>findOne_fault := \<lambda>db name. Some (Exn ''connection lost'')\<rparr>)
          [alice_doc] alice) =
     Response 500 (Message ''Server Error during login'') \<and>
   fst (registerUser stub_env [alice_doc] alice) =
     Response 400 (Message ''User already exists'') \<and>
   fst (loginUser stub_env [] alice) = Response 404 (Text ''User not found'') \<and>
   fst (loginUser stub_env [alice_doc] (alice\<lparr>password := JStr ''wrong''\<rparr>)) =
     Response 400 (Text ''Incorrect password'')"
proof -
  let ?nokey = "stub_env\<lparr>JWTKEY := JUndefined\<rparr>"
  let ?full = "stub_env\<lparr>save_fault := \<lambda>db doc. Some (Exn ''write failed'')\<rparr>"
  let ?down = "stub_env\<lparr>findOne_fault := \<lambda>db name. Some (Exn ''connection lost'')\<rparr>"
  let ?num = "alice\<lparr>password := JNum 12345\<rparr>"
  let ?wrong = "alice\<lparr>password := JStr ''wrong''\<rparr>"
  note reg = thrown_is_500_expected_is_specific [THEN conjunct1, THEN mp, OF run_triple,
      THEN conjunct2, THEN conjunct2, THEN conjunct2, THEN mp]
    and log = thrown_is_500_expected_is_specific [THEN conjunct2, THEN mp, OF run_triple,
      THEN conjunct2, THEN conjunct2, THEN conjunct2, THEN mp]
  have fields: "truthy (username alice) \<and> truthy (password alice) \<and>
      truthy (firstname alice) \<and> truthy (lastname alice)"
    "truthy (username ?num) \<and> truthy (password ?num) \<and>
      truthy (firstname ?num) \<and> truthy (lastname ?num)"
    "truthy (username alice) \<and> truthy (password alice)"
    "truthy (username ?wrong) \<and> truthy (password ?wrong)"
    by (simp_all add: alice_def)
  have nokey: "genSalt ?nokey 10 = Inr ''salt''"
    "hash ?nokey (password alice) ''salt'' = Inr ''salt$pw123''"
    "findOne_fault ?nokey [] (username alice) = None"
    "lookup [] (username alice) = None"
    "save_fault ?nokey [] (UserModel ?nokey (alice\<lparr>password := JStr ''salt$pw123''\<rparr>)) = None"
    "sign ?nokey \<lparr>claim_username = username alice, claim_id = new_id ?nokey\<rparr>
       (JWTKEY ?nokey) ''1h'' = Inl (Exn ''secretOrPrivateKey must have a value'')"
    by (simp_all add: stub_env_def alice_def lookup_def)
  have full: "genSalt ?full 10 = Inr ''salt''"
    "hash ?full (password alice) ''salt'' = Inr ''salt$pw123''"
    "findOne_fault ?full [] (username alice) = None"
    "save_fault ?full [] (UserModel ?full (alice\<lparr>password := JStr ''salt$pw123''\<rparr>)) =
       Some (Exn ''write failed'')"
    by (simp_all add: stub_env_def alice_def)
  have num: "genSalt stub_env 10 = Inr ''salt''"
    "hash stub_env (password ?num) ''salt'' = Inl (Exn ''data must be a string'')"
    by (simp_all add: stub_env_def alice_def)
  have down: "findOne_fault ?down [alice_doc] (username alice) = Some (Exn ''connection lost'')"
    by simp
  have taken: "hash stub_env (password alice) ''salt'' = Inr ''salt$pw123''"
    "findOne_fault stub_env [alice_doc] (username alice) = None"
    "lookup [alice_doc] (username alice) = Some alice_doc"
    by (simp_all add: stub_env_def alice_def alice_doc_def lookup_def)
  have unknown: "findOne_fault stub_env [] (username alice) = None"
    by (simp add: stub_env_def)
  have wrong: "findOne_fault stub_env [alice_doc] (username ?wrong) = None"
    "lookup [alice_doc] (username ?wrong) = Some alice_doc"
    "compare stub_env (password ?wrong) (password alice_doc) = Inr False"
    by (simp_all add: stub_env_def alice_def alice_doc_def lookup_def)
  from reg [OF fields(1), of ?nokey "[]"] nokey
  have r1: "fst (registerUser ?nokey [] alice) =
      Response 500 (Message ''Server Error during registration'')"
    by blast
  from reg [OF fields(1), of ?full "[]"] full nokey(4)
  have r2: "fst (registerUser ?full [] alice) =
      Response 500 (Message ''Server Error during registration'')"
    by blast
  from reg [OF fields(2), of stub_env "[]"] num
  have r3: "fst (registerUser stub_env [] ?num) =
      Response 500 (Message ''Server Error during registration'')"
    by blast
  from log [OF fields(3), of ?down "[alice_doc]"] down
  have r4: "fst (loginUser ?down [alice_doc] alice) =
      Response 500 (Message ''Server Error during login'')"
    by blast
  from reg [OF fields(1), of stub_env "[alice_doc]"] num(1) taken
  have r5: "fst (registerUser stub_env [alice_doc] alice) =
      Response 400 (Message ''User already exists'')"
    by blast
  from log [OF fields(3), of stub_env "[]"] unknown nokey(4)
  have r6: "fst (loginUser stub_env [] alice) = Response 404 (Text ''User not found'')"
    by blast
  from log [OF fields(4), of stub_env "[alice_doc]"] wrong
  have r7: "fst (loginUser stub_env [alice_doc] ?wrong) =
      Response 400 (Text ''Incorrect password'')"
    by blast
  from r1 r2 r3 r4 r5 r6 r7 show ?thesis
    by blast
qed

text \<open>
  C9. When \<open>registerUser\<close> answers with a status other than 200 and no save has
  completed, the collection is unchanged. The only error response with a changed
  collection is the one where the save completed and the signing after it threw.
\<close>

theorem register_error_keeps_store:
  assumes run: "registerUser env db b = (res, db', tr)"
    and error: "status res \<noteq> 200"
  shows "((\<forall>ev\<in>set tr. \<not> saved ev) \<longrightarrow> db' = db) \<and>
         (db' \<noteq> db \<longrightarrow>
            (\<exists>u c key expiresIn e.
               Save u (Inr u) \<in> set tr \<and> Sign c key expiresIn (Inl e) \<in> set tr \<and>
               db' = db @ [u]))"
  using run
  by (cases rule: registerUser_cases) (use error in simp_all)

theorem register_error_keeps_store_witness:
  "status (fst (registerUser stub_env [alice_doc] alice)) \<noteq> 200 \<and>
   fst (snd (registerUser stub_env [alice_doc] alice)) = [alice_doc] \<and>
   status (fst (registerUser (stub_env\<lparr>save_fault := \<lambda>db doc. Some (Exn ''write failed'')\<rparr>)
                  [] alice)) \<noteq> 200 \<and>
   fst (snd (registerUser (stub_env\<lparr>save_fault := \<lambda>db doc. Some (Exn ''write failed'')\<rparr>)
               [] alice)) = []"
proof -
  let ?full = "stub_env\<lparr>save_fault := \<lambda>db doc. Some (Exn ''write failed'')\<rparr>"
  have e1: "status (fst (registerUser stub_env [alice_doc] alice)) \<noteq> 200"
    by (simp add: run_defs)
  have e2: "status (fst (registerUser ?full [] alice)) \<noteq> 200"
    by (simp add: run_defs)
  have s1: "\<forall>ev\<in>set (snd (snd (registerUser stub_env [alice_doc] alice))). \<not> saved ev"
    by (simp add: run_defs)
  have s2: "\<forall>ev\<in>set (snd (snd (registerUser ?full [] alice))). \<not> saved ev"
    by (simp add: run_defs)
  from register_error_keeps_store [OF run_triple e1, THEN conjunct1, THEN mp, OF s1]
    register_error_keeps_store [OF run_triple e2, THEN conjunct1, THEN mp, OF s2]
    e1 e2
  show ?thesis
    by blast
qed

text \<open>
  C10. Presence is truthiness: a request whose username or password is the empty
  string (or 0, or \<open>null\<close>) gets from either handler the very answer, status 400, of
  the request with that field absent.
\<close>

theorem falsy_field_is_missing:
  assumes "v \<in> {JStr [], JNum 0, JNull}"
  shows "registerUser env db (b\<lparr>username := v\<rparr>) =
           registerUser env db (b\<lparr>username := JUndefined\<rparr>) \<and>
         registerUser env db (b\<lparr>password := v\<rparr>) =
           registerUser env db (b\<lparr>password := JUndefined\<rparr>) \<and>
         loginUser env db (b\<lparr>username := v\<rparr>) =
           loginUser env db (b\<lparr>username := JUndefined\<rparr>) \<and>
         loginUser env db (b\<lparr>password := v\<rparr>) =
           loginUser env db (b\<lparr>password := JUndefined\<rparr>) \<and>
         status (fst (registerUser env db (b\<lparr>username := v\<rparr>))) = 400 \<and>
         status (fst (registerUser env db (b\<lparr>password := v\<rparr>))) = 400 \<and>
         status (fst (loginUser env db (b\<lparr>username := v\<rparr>))) = 400 \<and>
         status (fst (loginUser env db (b\<lparr>password := v\<rparr>))) = 400"
  using assms by (auto simp: registerUser_invalid loginUser_invalid)

theorem falsy_field_is_missing_witness:
  "registerUser stub_env [] (alice\<lparr>username := JStr ''''\<rparr>) =
     registerUser stub_env [] (alice\<lparr>username := JUndefined\<rparr>) \<and>
   status (fst (registerUser stub_env [] (alice\<lparr>username := JStr ''''\<rparr>))) = 400 \<and>
   loginUser stub_env [alice_doc] (alice\<lparr>password := JStr ''''\<rparr>) =
     loginUser stub_env [alice_doc] (alice\<lparr>password := JUndefined\<rparr>) \<and>
   status (fst (loginUser stub_env [alice_doc] (alice\<lparr>password := JStr ''''\<rparr>))) = 400"
proof -
  have v: "JStr '''' \<in> {JStr [], JNum 0, JNull}"
    by simp
  from falsy_field_is_missing [OF v, of stub_env "[]" alice]
    falsy_field_is_missing [OF v, of stub_env "[alice_doc]" alice]
  show ?thesis
    by blast
qed

section \<open>The client\<close>

text \<open>
  C8. \<open>logIn\<close> and \<open>signUp\<close> first dispatch \<open>AUTH_START\<close>. When the request
  resolves they dispatch \<open>AUTH_SUCCESS\<close> with the data of the response and then
  navigate to \<open>/home\<close>, replacing the history entry. When it rejects they log the
  error and dispatch \<open>AUTH_FAIL\<close>, which carries nothing of the error, and do not
  navigate.
\<close>

theorem client_action_effects:
  shows "(\<exists>rest. logIn api formData = Dispatch AUTH_START # rest) \<and>
         (\<exists>rest. signUp api formData = Dispatch AUTH_START # rest) \<and>
         (\<forall>r. api_logIn api formData = Inr r \<longrightarrow>
            logIn api formData =
              [Dispatch AUTH_START, Dispatch (AUTH_SUCCESS (json r)), Navigate ''/home'' True]) \<and>
         (\<forall>r. api_signUp api formData = Inr r \<longrightarrow>
            signUp api formData =
              [Dispatch AUTH_START, Dispatch (AUTH_SUCCESS (json r)), Navigate ''/home'' True]) \<and>
         (\<forall>e. api_logIn api formData = Inl e \<longrightarrow>
            logIn api formData =
              [Dispatch AUTH_START, ConsoleError ''Login Error:'' (error_detail e),
               Dispatch AUTH_FAIL] \<and>
            (\<forall>path replace. Navigate path replace \<notin> set (logIn api formData))) \<and>
         (\<forall>e. api_signUp api formData = Inl e \<longrightarrow>
            signUp api formData =
              [Dispatch AUTH_START, ConsoleError ''Signup Error:'' (error_detail e),
               Dispatch AUTH_FAIL] \<and>
            (\<forall>path replace. Navigate path replace \<notin> set (signUp api formData)))"
  by (simp add: logIn_def signUp_def)

theorem client_action_effects_witness:
  "logIn stub_api alice =
     [Dispatch AUTH_START,
      Dispatch (AUTH_SUCCESS (UserToken alice_doc ''header.payload.signature'')),
      Navigate ''/home'' True] \<and>
   signUp stub_api alice =
     [Dispatch AUTH_START,
      ConsoleError ''Signup Error:'' (Data (Message ''User already exists'')),
      Dispatch AUTH_FAIL]"
proof -
  have ok: "api_logIn stub_api alice =
      Inr (Response 200 (UserToken alice_doc ''header.payload.signature''))"
    by (simp add: stub_api_def request_def run_defs)
  have failed: "api_signUp stub_api alice =
      Inl (ApiError (Some (Response 400 (Message ''User already exists''))) ''Request failed'')"
    by (simp add: stub_api_def request_def run_defs)
  note effects = client_action_effects [of stub_api alice]
  from effects [THEN conjunct2, THEN conjunct2, THEN conjunct1, rule_format, OF ok]
    effects [THEN conjunct2, THEN conjunct2, THEN conjunct2, THEN conjunct2, THEN conjunct2,
      rule_format, OF failed]
  show ?thesis
    by (simp add: error_detail_def)
qed

end
